theory Spec2Isabelle
  imports Main
begin

section \<open>Thrown and rejected values\<close>

text \<open>
  JavaScript throws, and rejects a promise with, any value. The source reads the value of
  a \<^verbatim>\<open>catch (e)\<close> or of a rejection through \<^verbatim>\<open>e.toString()\<close>, through \<^verbatim>\<open>e.message\<close> and
  through string concatenation only, so a value is one of three kinds: \<^verbatim>\<open>undefined\<close> and
  \<^verbatim>\<open>null\<close>, on which every member access raises a TypeError, and the values that have
  members. Those are a string primitive (\<^verbatim>\<open>Promise.reject('unknowncommand')\<close>) or an
  Error object with its \<^verbatim>\<open>name\<close> and \<^verbatim>\<open>message\<close>.
\<close>

datatype js_error = JString string | JError string string

text \<open>\<^verbatim>\<open>String.prototype.toString\<close> and \<^verbatim>\<open>Error.prototype.toString\<close>.\<close>

fun toString :: "js_error \<Rightarrow> string" where
  "toString (JString s) = s"
| "toString (JError name msg) =
     (if name = [] then msg else if msg = [] then name else name @ '': '' @ msg)"

text \<open>\<^verbatim>\<open>e.message\<close>: \<^verbatim>\<open>undefined\<close> (\<open>None\<close>) on a string primitive.\<close>

fun message_of :: "js_error \<Rightarrow> string option" where
  "message_of (JString s) = None"
| "message_of (JError name msg) = Some msg"

datatype thrown = Undefined | Null | Err js_error

text \<open>
  The TypeError of a member access on \<^verbatim>\<open>undefined\<close> or \<^verbatim>\<open>null\<close>, with the name of the
  member and the text of the value. The wording of the message is the engine's; nothing
  below depends on it.
\<close>

definition TypeError_member :: "string \<Rightarrow> string \<Rightarrow> thrown" where
  "TypeError_member member v =
     Err (JError ''TypeError'' (''Cannot read property '' @ member @ '' of '' @ v))"

text \<open>The expression \<^verbatim>\<open>e.toString()\<close>: \<open>Inl\<close> is the exception it raises.\<close>

fun e_toString :: "thrown \<Rightarrow> thrown + string" where
  "e_toString Undefined = Inl (TypeError_member ''toString'' ''undefined'')"
| "e_toString Null = Inl (TypeError_member ''toString'' ''null'')"
| "e_toString (Err e) = Inr (toString e)"

text \<open>The expression \<^verbatim>\<open>e.message\<close>: \<open>Inl\<close> is the exception it raises.\<close>

fun e_message :: "thrown \<Rightarrow> thrown + string option" where
  "e_message Undefined = Inl (TypeError_member ''message'' ''undefined'')"
| "e_message Null = Inl (TypeError_member ''message'' ''null'')"
| "e_message (Err e) = Inr (message_of e)"

text \<open>
  The string that concatenation (\<^verbatim>\<open>'...' + err\<close>) makes of a value; it raises nothing.
\<close>

fun ToString :: "thrown \<Rightarrow> string" where
  "ToString Undefined = ''undefined''"
| "ToString Null = ''null''"
| "ToString (Err e) = toString e"

text \<open>Truthiness of an optional string: \<^verbatim>\<open>undefined\<close> and \<^verbatim>\<open>''\<close> are falsy.\<close>

fun truthy :: "string option \<Rightarrow> bool" where
  "truthy None = False"
| "truthy (Some s) = (s \<noteq> [])"

section \<open>Logger\<close>

text \<open>
  An instance of class \<^verbatim>\<open>Logger\<close> holds \<^verbatim>\<open>_isServer\<close>. The statics of the class are
  \<^verbatim>\<open>ALLOW_LOGGING\<close> and the singleton \<^verbatim>\<open>_logger\<close> (\<open>None\<close> until \<^verbatim>\<open>init\<close>). The
  record also holds what the class acts on: the lines written by \<^verbatim>\<open>console.log\<close>, in
  order, and the number of timers started by \<^verbatim>\<open>setInterval\<close>.
\<close>

record Logger =
  isServer :: bool

record statics =
  ALLOW_LOGGING :: bool
  logger :: "Logger option"
  console :: "string list"
  intervals :: nat

text \<open>\<^verbatim>\<open>private _log(msg)\<close>: \<^verbatim>\<open>if (this._isServer && Logger.ALLOW_LOGGING) console.log(msg)\<close>.\<close>

definition Logger__log :: "Logger \<Rightarrow> string \<Rightarrow> 'z statics_scheme \<Rightarrow> 'z statics_scheme" where
  "Logger__log this msg st =
     (if isServer this \<and> ALLOW_LOGGING st then st\<lparr>console := console st @ [msg]\<rparr> else st)"

text \<open>\<^verbatim>\<open>static log(msg)\<close>: \<^verbatim>\<open>if (this._logger) this._logger._log(msg)\<close>.\<close>

definition Logger_log :: "string \<Rightarrow> 'z statics_scheme \<Rightarrow> 'z statics_scheme" where
  "Logger_log msg st =
     (case logger st of None \<Rightarrow> st | Some this \<Rightarrow> Logger__log this msg st)"

text \<open>
  \<^verbatim>\<open>static init(isServer)\<close> replaces the singleton and starts one more timer; the timer
  is never cleared.
\<close>

definition Logger_init :: "bool \<Rightarrow> 'z statics_scheme \<Rightarrow> 'z statics_scheme" where
  "Logger_init isServer' st =
     st\<lparr>logger := Some \<lparr>isServer = isServer'\<rparr>, intervals := Suc (intervals st)\<rparr>"

text \<open>One firing of a timer started by \<^verbatim>\<open>init\<close>: \<^verbatim>\<open>() => Logger.log('-')\<close>.\<close>

definition interval_tick :: "'z statics_scheme \<Rightarrow> 'z statics_scheme" where
  "interval_tick st = Logger_log ''-'' st"

text \<open>Any number of calls of \<^verbatim>\<open>Logger.log\<close>, one per message, in order.\<close>

fun log_all :: "string list \<Rightarrow> 'z statics_scheme \<Rightarrow> 'z statics_scheme" where
  "log_all [] st = st"
| "log_all (msg # msgs) st = log_all msgs (Logger_log msg st)"

section \<open>Protocol messages\<close>

text \<open>
  \<^verbatim>\<open>DebugProtocol.Request\<close>: the sequence number that identifies the request, the
  command name and the argument payload (of any type \<open>'a\<close>).
\<close>

record 'a Request =
  seq :: nat
  command :: string
  arguments :: 'a

datatype ErrorDestination = User | Telemetry

text \<open>
  The error details that \<^verbatim>\<open>sendErrorResponse\<close> is given: the numeric code, the format
  string, the variables of the format (\<open>None\<close> for \<^verbatim>\<open>null\<close>; a variable whose value is
  \<^verbatim>\<open>undefined\<close> is bound to \<open>None\<close>) and the destination.
\<close>

record ErrorMessage =
  error_id :: nat
  error_format :: string
  error_variables :: "(string \<times> string option) list option"
  error_destination :: ErrorDestination

text \<open>
  \<^verbatim>\<open>DebugProtocol.Response\<close>: the id and the command of the request it answers, the
  success flag, the optional body (of any type \<open>'b\<close>), the optional message and the
  optional error details.
\<close>

record 'b Response =
  request_seq :: nat
  response_command :: string
  success :: bool
  body :: "'b option"
  message :: "string option"
  error :: "ErrorMessage option"

record 'b Event =
  event :: string
  event_body :: "'b option"

text \<open>What the base session hands to the transport, in send order.\<close>

datatype 'b sent_message = SentResponse "'b Response" | SentEvent "'b Event"

record 'b session = statics +
  sent :: "'b sent_message list"

text \<open>
  \<^verbatim>\<open>JSON.stringify\<close> on the three kinds of value the session logs. The texts only reach
  the console, so they are parameters. \<^verbatim>\<open>JSON.stringify\<close> raises a TypeError on a value
  it cannot serialise (a circular structure); \<open>serialisable\<close> says which bodies it can.
  Every other field of a Response or Event is a number, a boolean or a string, and the
  arguments of a request were decoded from JSON by the transport, so only a body can make
  it fail.
\<close>

record ('a, 'b) JSON =
  stringify_arguments :: "'a \<Rightarrow> string"
  serialisable :: "'b \<Rightarrow> bool"
  stringify_response :: "'b Response \<Rightarrow> string"
  stringify_event :: "'b Event \<Rightarrow> string"

definition TypeError_circular :: thrown where
  "TypeError_circular = Err (JError ''TypeError'' ''Converting circular structure to JSON'')"

text \<open>\<^verbatim>\<open>JSON.stringify(response)\<close> and \<^verbatim>\<open>JSON.stringify(event)\<close>: \<open>Inl\<close> is the exception.\<close>

definition JSON_stringify_response :: "('a, 'b) JSON \<Rightarrow> 'b Response \<Rightarrow> thrown + string" where
  "JSON_stringify_response js response =
     (case body response of
        None \<Rightarrow> Inr (stringify_response js response)
      | Some b \<Rightarrow>
          if serialisable js b then Inr (stringify_response js response)
          else Inl TypeError_circular)"

definition JSON_stringify_event :: "('a, 'b) JSON \<Rightarrow> 'b Event \<Rightarrow> thrown + string" where
  "JSON_stringify_event js ev =
     (case event_body ev of
        None \<Rightarrow> Inr (stringify_event js ev)
      | Some b \<Rightarrow>
          if serialisable js b then Inr (stringify_event js ev) else Inl TypeError_circular)"

text \<open>
  The outcome of a method of the session: \<open>Inr\<close> is the state after a normal return,
  \<open>Inl\<close> an exception that leaves the method, with the state reached at the throw.
\<close>

type_synonym 'b outcome = "(thrown \<times> 'b session) + 'b session"

text \<open>
  Modelled from the spec: \<^verbatim>\<open>new Response(request)\<close> of \<^verbatim>\<open>common/v8Protocol\<close>, which
  is not among the sources. It is a fresh Response correlated to the request, successful
  until a failure field is set, with no body, message or error details yet.
\<close>

definition new_Response :: "'a Request \<Rightarrow> 'b Response" where
  "new_Response request =
     \<lparr>request_seq = seq request, response_command = command request, success = True,
      body = None, message = None, error = None\<rparr>"

text \<open>
  Modelled from the spec: \<^verbatim>\<open>sendResponse\<close> and \<^verbatim>\<open>sendEvent\<close> of the base class
  \<^verbatim>\<open>DebugSession\<close> (\<^verbatim>\<open>common/debugSession\<close>, not among the sources) hand the message to
  the transport.
\<close>

definition super_sendResponse :: "'b Response \<Rightarrow> 'b session \<Rightarrow> 'b session" where
  "super_sendResponse response st = st\<lparr>sent := sent st @ [SentResponse response]\<rparr>"

definition super_sendEvent :: "'b Event \<Rightarrow> 'b session \<Rightarrow> 'b session" where
  "super_sendEvent ev st = st\<lparr>sent := sent st @ [SentEvent ev]\<rparr>"

section \<open>WebKitDebugSession\<close>

text \<open>The constructor: \<^verbatim>\<open>Logger.init(isServer)\<close> after the base constructor.\<close>

definition WebKitDebugSession :: "bool \<Rightarrow> 'b session \<Rightarrow> 'b session" where
  "WebKitDebugSession isServer' st = Logger_init isServer' st"

text \<open>
  The two overloads that log, then call the base method. The argument of \<^verbatim>\<open>Logger.log\<close>
  is evaluated first, whether or not logging is on: when \<^verbatim>\<open>JSON.stringify\<close> raises,
  nothing is logged and nothing is sent.
\<close>

definition sendEvent :: "('a, 'b) JSON \<Rightarrow> 'b Event \<Rightarrow> 'b session \<Rightarrow> 'b outcome" where
  "sendEvent js ev st =
     (case JSON_stringify_event js ev of
        Inl err \<Rightarrow> Inl (err, st)
      | Inr line \<Rightarrow> Inr (super_sendEvent ev (Logger_log (''To client: '' @ line) st)))"

definition sendResponse :: "('a, 'b) JSON \<Rightarrow> 'b Response \<Rightarrow> 'b session \<Rightarrow> 'b outcome" where
  "sendResponse js response st =
     (case JSON_stringify_response js response of
        Inl err \<Rightarrow> Inl (err, st)
      | Inr line \<Rightarrow>
          Inr (super_sendResponse response (Logger_log (''To client: '' @ line) st)))"

text \<open>
  Modelled from the spec: \<^verbatim>\<open>sendErrorResponse\<close> of the base class \<^verbatim>\<open>DebugSession\<close>,
  not among the sources. It marks the Response as failed, attaches the error code, format,
  variables and destination, and sends it through \<^verbatim>\<open>this.sendResponse\<close>.
\<close>

definition sendErrorResponse ::
  "('a, 'b) JSON \<Rightarrow> 'b Response \<Rightarrow> nat \<Rightarrow> string \<Rightarrow> (string \<times> string option) list option \<Rightarrow>
   ErrorDestination \<Rightarrow> 'b session \<Rightarrow> 'b outcome" where
  "sendErrorResponse js response code format' args dest st =
     sendResponse js
       (response\<lparr>success := False,
          error := Some \<lparr>error_id = code, error_format = format', error_variables = args,
                         error_destination = dest\<rparr>\<rparr>) st"

text \<open>
  How a promise ends: fulfilled with a body (\<open>None\<close> for \<^verbatim>\<open>undefined\<close>), rejected with
  any value, or never settled. A promise calls at most one of the two callbacks of
  \<^verbatim>\<open>then\<close>, at most once.
\<close>

datatype 'b promise = Fulfilled "'b option" | Rejected thrown | Pending

text \<open>
  \<^verbatim>\<open>sendResponseAsync(request, response, responseP)\<close>: what the callback that
  \<^verbatim>\<open>responseP\<close> calls does. \<open>Inl\<close> is an exception raised inside the callback. The source
  evaluates \<^verbatim>\<open>e.toString()\<close> again for the log line and for the message; once the first
  evaluation has returned \<open>eStr\<close>, the later ones return the same string.
\<close>

definition sendResponseAsync ::
  "('a, 'b) JSON \<Rightarrow> 'a Request \<Rightarrow> 'b Response \<Rightarrow> 'b promise \<Rightarrow> 'b session \<Rightarrow> 'b outcome" where
  "sendResponseAsync js request response responseP st =
     (case responseP of
        Fulfilled body' \<Rightarrow> sendResponse js (response\<lparr>body := body'\<rparr>) st
      | Rejected e \<Rightarrow>
          (case e_toString e of
             Inl err \<Rightarrow> Inl (err, st)
           | Inr eStr \<Rightarrow>
               if eStr = ''unknowncommand''
               then sendErrorResponse js response 1014 ''Unrecognized request'' None Telemetry st
               else
                 (let st1 = Logger_log eStr st;
                      response1 =
                        (if command request = ''evaluate''
                         then response\<lparr>message := Some eStr\<rparr>
                         else response\<lparr>message := Some (''[webkit-debug-adapter] '' @ eStr)\<rparr>)
                  in sendResponse js (response1\<lparr>success := False\<rparr>) st1))
      | Pending \<Rightarrow> Inr st)"

text \<open>
  An exception raised inside a callback of \<^verbatim>\<open>then\<close> rejects the promise that \<^verbatim>\<open>then\<close>
  returned. The source keeps no reference to that promise: nothing handles the exception,
  and the session stays as the callback left it.
\<close>

fun after_callback :: "'b outcome \<Rightarrow> 'b session" where
  "after_callback (Inr st) = st"
| "after_callback (Inl (err, st)) = st"

text \<open>
  What the call \<^verbatim>\<open>this._adapterProxy.dispatchRequest(request)\<close> does: it throws any
  value, or it returns a promise.
\<close>

datatype 'b dispatched = Throws thrown | Returns "'b promise"

text \<open>
  The body of the \<^verbatim>\<open>try\<close> block of \<^verbatim>\<open>dispatchRequest\<close>: \<open>Inl\<close> is an exception
  thrown inside it, with the state reached at the throw. The call of
  \<^verbatim>\<open>sendResponseAsync\<close> itself returns as soon as the callbacks are attached; the state
  is the one after the callback, if any, has run.
\<close>

definition dispatchRequest_try ::
  "('a, 'b) JSON \<Rightarrow> 'a Request \<Rightarrow> 'b Response \<Rightarrow> 'b dispatched \<Rightarrow> 'b session \<Rightarrow>
   'b outcome" where
  "dispatchRequest_try js request response dispatched st =
     (let st1 = Logger_log (''From client: '' @ command request @ ''('' @
                  stringify_arguments js (arguments request) @ '')'') st
      in case dispatched of
           Throws e \<Rightarrow> Inl (e, st1)
         | Returns responseP \<Rightarrow>
             Inr (after_callback (sendResponseAsync js request response responseP st1)))"

text \<open>
  \<^verbatim>\<open>dispatchRequest(request)\<close>: \<open>Inl\<close> is an exception that escapes the routine, \<open>Inr\<close>
  the state after a normal return. The arguments of \<^verbatim>\<open>sendErrorResponse\<close> in the
  \<^verbatim>\<open>catch\<close> block are evaluated first, \<^verbatim>\<open>e.message\<close> among them.
\<close>

definition dispatchRequest ::
  "('a, 'b) JSON \<Rightarrow> 'a Request \<Rightarrow> 'b dispatched \<Rightarrow> 'b session \<Rightarrow> 'b outcome" where
  "dispatchRequest js request dispatched st =
     (let response = new_Response request in
      case dispatchRequest_try js request response dispatched st of
        Inr st' \<Rightarrow> Inr st'
      | Inl (e, st') \<Rightarrow>
          (case e_message e of
             Inl err \<Rightarrow> Inl (err, st')
           | Inr msg \<Rightarrow>
               sendErrorResponse js response 1104
                 ''Exception while processing request (exception: {_exception})''
                 (Some [(''_exception'', msg)]) Telemetry st'))"

text \<open>
  The dispatches that settle with a value the session can work on: the adapter proxy
  throws a value that has members, or its promise is fulfilled with no body or with a
  body that \<^verbatim>\<open>JSON.stringify\<close> can serialise, or its promise is rejected with a value that
  has members.
\<close>

fun has_members :: "thrown \<Rightarrow> bool" where
  "has_members Undefined = False"
| "has_members Null = False"
| "has_members (Err e) = True"

fun workable :: "('a, 'b) JSON \<Rightarrow> 'b dispatched \<Rightarrow> bool" where
  "workable js (Throws e) = has_members e"
| "workable js (Returns (Fulfilled None)) = True"
| "workable js (Returns (Fulfilled (Some b))) = serialisable js b"
| "workable js (Returns (Rejected e)) = has_members e"
| "workable js (Returns Pending) = False"

text \<open>The Responses among the sent messages that answer the request with id \<open>n\<close>.\<close>

fun answers :: "nat \<Rightarrow> 'b sent_message \<Rightarrow> bool" where
  "answers n (SentResponse r) = (request_seq r = n)"
| "answers n (SentEvent ev) = False"

definition responses_to :: "nat \<Rightarrow> 'b session \<Rightarrow> 'b sent_message list" where
  "responses_to n st = filter (answers n) (sent st)"

section \<open>ChromeDebugAdapter\<close>

text \<open>
  \<^verbatim>\<open>ILaunchRequestArgs\<close>, every field optional (\<open>None\<close> for \<^verbatim>\<open>undefined\<close>). The port is
  a natural number; the field \<^verbatim>\<open>file\<close> is written \<open>file'\<close>.
\<close>

record ILaunchRequestArgs =
  runtimeExecutable :: "string option"
  port :: "nat option"
  runtimeArgs :: "string list option"
  userDataDir :: "string option"
  file' :: "string option"
  url :: "string option"
  address :: "string option"

text \<open>The decimal text of a number, as \<^verbatim>\<open>'...' + port\<close> produces it.\<close>

definition digit :: "nat \<Rightarrow> char" where
  "digit d = ''0123456789'' ! d"

function string_of_nat :: "nat \<Rightarrow> string" where
  "string_of_nat n =
     (if n < 10 then [digit n] else string_of_nat (n div 10) @ [digit (n mod 10)])"
  by pat_completeness auto
termination
  by (relation "measure id") auto

declare string_of_nat.simps [simp del]

text \<open>A handle on a spawned child process.\<close>

type_synonym ChildProcess = nat

text \<open>
  What \<^verbatim>\<open>launch\<close> takes from its surroundings: the result of \<^verbatim>\<open>utils.getBrowserPath()\<close>
  (\<open>None\<close> when nothing is found), \<^verbatim>\<open>coreUtils.pathToFileURL\<close>, \<^verbatim>\<open>JSON.stringify\<close> on
  the argument list, and the handle that \<^verbatim>\<open>spawn\<close> returns.
\<close>

record surroundings =
  getBrowserPath :: "string option"
  pathToFileURL :: "string \<Rightarrow> string"
  stringify_args :: "string list \<Rightarrow> string"
  spawn :: "string \<Rightarrow> string list \<Rightarrow> ChildProcess"

text \<open>
  The calls the adapter makes on other components, in order: the inherited methods
  \<^verbatim>\<open>setupLogging\<close>, \<^verbatim>\<open>doAttach\<close>, \<^verbatim>\<open>terminateSession\<close>, \<^verbatim>\<open>super.disconnect\<close> and
  \<^verbatim>\<open>super.clearEverything\<close>, the core's \<^verbatim>\<open>logger.log\<close>, \<^verbatim>\<open>spawn\<close> (always with
  \<^verbatim>\<open>detached: true\<close> and \<^verbatim>\<open>stdio: ['ignore']\<close>), and \<^verbatim>\<open>unref\<close>, \<^verbatim>\<open>on\<close> and
  \<^verbatim>\<open>kill\<close> on a process handle. \<open>On\<close> carries the event name and the listener: a
  function from the value of the event to the calls the listener makes, or (\<open>Inl\<close>) to
  the exception it raises.
\<close>

datatype effect =
    SetupLogging ILaunchRequestArgs
  | LoggerLog string
  | Spawn string "string list"
  | Unref ChildProcess
  | On ChildProcess string "thrown \<Rightarrow> thrown + effect list"
  | DoAttach nat "string option" "string option"
  | TerminateSession
  | Kill ChildProcess string
  | SuperDisconnect
  | SuperClearEverything

text \<open>The field \<^verbatim>\<open>_chromeProc\<close>: \<open>None\<close> when it holds no handle (\<^verbatim>\<open>undefined\<close> or \<^verbatim>\<open>null\<close>).\<close>

record adapter =
  chromeProc :: "ChildProcess option"

text \<open>
  What \<^verbatim>\<open>launch\<close> returns: the rejected promise of \<^verbatim>\<open>coreUtils.errP\<close> with its
  message, or the promise of \<^verbatim>\<open>doAttach\<close>.
\<close>

datatype launched = ErrP string | Attaching

text \<open>\<^verbatim>\<open>args.runtimeExecutable || utils.getBrowserPath()\<close>.\<close>

definition launch_chromePath :: "surroundings \<Rightarrow> ILaunchRequestArgs \<Rightarrow> string option" where
  "launch_chromePath env args =
     (if truthy (runtimeExecutable args) then runtimeExecutable args else getBrowserPath env)"

text \<open>\<^verbatim>\<open>args.port || 9222\<close>: \<^verbatim>\<open>undefined\<close> and \<^verbatim>\<open>0\<close> are falsy.\<close>

definition launch_port :: "ILaunchRequestArgs \<Rightarrow> nat" where
  "launch_port args =
     (case port args of None \<Rightarrow> 9222 | Some p \<Rightarrow> if p = 0 then 9222 else p)"

text \<open>The variable \<^verbatim>\<open>launchUrl\<close>, \<open>None\<close> while it is unassigned.\<close>

definition launch_launchUrl :: "surroundings \<Rightarrow> ILaunchRequestArgs \<Rightarrow> string option" where
  "launch_launchUrl env args =
     (if truthy (file' args) then map_option (pathToFileURL env) (file' args)
      else if truthy (url args) then url args
      else None)"

text \<open>The array \<^verbatim>\<open>chromeArgs\<close>, push by push.\<close>

definition launch_chromeArgs :: "surroundings \<Rightarrow> ILaunchRequestArgs \<Rightarrow> string list" where
  "launch_chromeArgs env args =
     (let chromeArgs0 = [''--remote-debugging-port='' @ string_of_nat (launch_port args)];
          chromeArgs1 = chromeArgs0 @ [''--no-first-run'', ''--no-default-browser-check''];
          chromeArgs2 =
            (case runtimeArgs args of None \<Rightarrow> chromeArgs1 | Some extra \<Rightarrow> chromeArgs1 @ extra);
          chromeArgs3 =
            (case userDataDir args of
               None \<Rightarrow> chromeArgs2
             | Some dir \<Rightarrow>
                 if dir \<noteq> [] then chromeArgs2 @ [''--user-data-dir='' @ dir] else chromeArgs2)
      in case launch_launchUrl env args of
           None \<Rightarrow> chromeArgs3
         | Some launchUrl \<Rightarrow>
             if launchUrl \<noteq> [] then chromeArgs3 @ [launchUrl] else chromeArgs3)"

text \<open>The listener that \<^verbatim>\<open>launch\<close> registers for the \<^verbatim>\<open>'error'\<close> event of the process.\<close>

definition launch_onError :: "thrown \<Rightarrow> thrown + effect list" where
  "launch_onError err = Inr [LoggerLog (''chrome error: '' @ ToString err), TerminateSession]"

text \<open>The message of the configuration error.\<close>

definition cant_find_Chrome :: string where
  \<open>cant_find_Chrome =
     ''Can't find Chrome - install it or set the "runtimeExecutable" field in the launch config.''\<close>

text \<open>\<^verbatim>\<open>launch(args)\<close>: the promise returned, the adapter afterwards and the calls made.\<close>

definition launch ::
  "surroundings \<Rightarrow> ILaunchRequestArgs \<Rightarrow> adapter \<Rightarrow> launched \<times> adapter \<times> effect list" where
  "launch env args this =
     (case launch_chromePath env args of
        None \<Rightarrow> (ErrP cant_find_Chrome, this, [SetupLogging args])
      | Some chromePath \<Rightarrow>
          if chromePath = [] then (ErrP cant_find_Chrome, this, [SetupLogging args])
          else
            (let port' = launch_port args;
                 chromeArgs = launch_chromeArgs env args;
                 launchUrl = launch_launchUrl env args;
                 proc = spawn env chromePath chromeArgs
             in (Attaching, this\<lparr>chromeProc := Some proc\<rparr>,
                 [SetupLogging args,
                  LoggerLog (''spawn('' @ [CHR 0x27] @ chromePath @ [CHR 0x27] @ '', '' @
                             stringify_args env chromeArgs @ '')''),
                  Spawn chromePath chromeArgs,
                  Unref proc,
                  On proc ''error'' launch_onError,
                  DoAttach port' launchUrl (address args)])))"

text \<open>\<^verbatim>\<open>disconnect()\<close>: the adapter afterwards and the calls made.\<close>

definition disconnect :: "adapter \<Rightarrow> adapter \<times> effect list" where
  "disconnect this =
     (case chromeProc this of
        Some proc \<Rightarrow> (this\<lparr>chromeProc := None\<rparr>, [Kill proc ''SIGINT'', SuperDisconnect])
      | None \<Rightarrow> (this, [SuperDisconnect]))"

text \<open>\<^verbatim>\<open>clearEverything()\<close>.\<close>

definition clearEverything :: "adapter \<Rightarrow> adapter \<times> effect list" where
  "clearEverything this = (this\<lparr>chromeProc := None\<rparr>, [SuperClearEverything])"

text \<open>
  The calls in a list that signal a process, those that spawn one and those that register
  a listener.
\<close>

fun is_Kill :: "effect \<Rightarrow> bool" where
  "is_Kill (Kill proc sig) = True"
| "is_Kill other = False"

fun is_Spawn :: "effect \<Rightarrow> bool" where
  "is_Spawn (Spawn path argv) = True"
| "is_Spawn other = False"

fun is_On :: "effect \<Rightarrow> bool" where
  "is_On (On proc name listener) = True"
| "is_On other = False"

section \<open>Example values\<close>

definition example_JSON :: "(unit, string) JSON" where
  "example_JSON =
     \<lparr>stringify_arguments = (\<lambda>u. ''{}''), serialisable = (\<lambda>b. b \<noteq> ''[Circular]''),
      stringify_response = (\<lambda>r. ''{response}''), stringify_event = (\<lambda>ev. ''{event}'')\<rparr>"

definition example_session :: "string session" where
  "example_session =
     \<lparr>ALLOW_LOGGING = True, logger = Some \<lparr>isServer = True\<rparr>, console = [], intervals = 1,
      sent = []\<rparr>"

definition example_request :: "string \<Rightarrow> unit Request" where
  "example_request c = \<lparr>seq = 7, command = c, arguments = ()\<rparr>"

definition example_statics :: statics where
  "example_statics =
     \<lparr>ALLOW_LOGGING = True, logger = Some \<lparr>isServer = False\<rparr>, console = [''kept''],
      intervals = 1\<rparr>"

definition example_surroundings :: surroundings where
  "example_surroundings =
     \<lparr>getBrowserPath = Some ''/usr/bin/chrome'', pathToFileURL = (\<lambda>p. ''file://'' @ p),
      stringify_args = concat, spawn = (\<lambda>path argv. 4711)\<rparr>"

definition example_args :: ILaunchRequestArgs where
  "example_args =
     \<lparr>runtimeExecutable = None, port = Some 9000, runtimeArgs = Some [''--foo''],
      userDataDir = Some ''/tmp/d'', file' = Some ''/a/b.html'', url = None, address = None\<rparr>"

section \<open>Facts about the Logger\<close>

lemma console_Logger_log_off:
  "\<not> (ALLOW_LOGGING st \<and> (\<exists>this. logger st = Some this \<and> isServer this)) \<Longrightarrow>
   Logger_log msg st = st"
  by (auto simp: Logger_log_def Logger__log_def split: option.splits)

lemma console_Logger_log_on:
  "logger st = Some this \<Longrightarrow> isServer this \<Longrightarrow> ALLOW_LOGGING st \<Longrightarrow>
   Logger_log msg st = st\<lparr>console := console st @ [msg]\<rparr>"
  by (simp add: Logger_log_def Logger__log_def)

lemma log_all_off:
  "\<not> (ALLOW_LOGGING st \<and> (\<exists>this. logger st = Some this \<and> isServer this)) \<Longrightarrow>
   log_all msgs st = st"
  by (induction msgs) (simp_all add: console_Logger_log_off)

lemma interval_ticks_off:
  "\<not> (ALLOW_LOGGING st \<and> (\<exists>this. logger st = Some this \<and> isServer this)) \<Longrightarrow>
   (interval_tick ^^ n) st = st"
  by (induction n) (simp_all add: interval_tick_def console_Logger_log_off)

lemma log_all_on:
  "logger st = Some this \<Longrightarrow> isServer this \<Longrightarrow> ALLOW_LOGGING st \<Longrightarrow>
   log_all msgs st = st\<lparr>console := console st @ msgs\<rparr>"
proof (induction msgs arbitrary: st)
  case Nil
  then show ?case by simp
next
  case (Cons msg msgs)
  let ?st1 = "st\<lparr>console := console st @ [msg]\<rparr>"
  have step: "Logger_log msg st = ?st1"
    using Cons.prems by (rule console_Logger_log_on)
  have "log_all msgs ?st1 = ?st1\<lparr>console := console ?st1 @ msgs\<rparr>"
    using Cons.prems by (intro Cons.IH) simp_all
  with step show ?case by simp
qed

lemma Logger_log_frame [simp]:
  "logger (Logger_log msg st) = logger st"
  "ALLOW_LOGGING (Logger_log msg st) = ALLOW_LOGGING st"
  "intervals (Logger_log msg st) = intervals st"
  "statics.more (Logger_log msg st) = statics.more st"
  by (simp_all add: Logger_log_def Logger__log_def split: option.splits)

section \<open>Facts about the session\<close>

lemma sent_Logger_log [simp]: "sent (Logger_log msg st) = sent st"
  by (simp add: Logger_log_def Logger__log_def split: option.splits)

lemma sent_super_sendResponse [simp]:
  "sent (super_sendResponse response st) = sent st @ [SentResponse response]"
  by (simp add: super_sendResponse_def)

lemma body_new_Response [simp]: "body (new_Response request) = None"
  by (simp add: new_Response_def)

lemma sendResponse_no_body:
  "body response = None \<Longrightarrow>
   sendResponse js response st =
     Inr (super_sendResponse response
            (Logger_log (''To client: '' @ stringify_response js response) st))"
  by (simp add: sendResponse_def JSON_stringify_response_def)

lemma sendResponse_serialisable:
  "body response = Some b \<Longrightarrow> serialisable js b \<Longrightarrow>
   sendResponse js response st =
     Inr (super_sendResponse response
            (Logger_log (''To client: '' @ stringify_response js response) st))"
  by (simp add: sendResponse_def JSON_stringify_response_def)

lemma sendResponse_circular:
  "body response = Some b \<Longrightarrow> \<not> serialisable js b \<Longrightarrow>
   sendResponse js response st = Inl (TypeError_circular, st)"
  by (simp add: sendResponse_def JSON_stringify_response_def)

lemma sendErrorResponse_no_body:
  "body response = None \<Longrightarrow>
   \<exists>st'. sendErrorResponse js response code fmt args dest st = Inr st' \<and>
     sent st' = sent st @ [SentResponse (response\<lparr>success := False,
       error := Some \<lparr>error_id = code, error_format = fmt, error_variables = args,
                      error_destination = dest\<rparr>\<rparr>)]"
  by (simp add: sendErrorResponse_def sendResponse_no_body)

text \<open>The callback of a rejection with a value that has members.\<close>

lemma sendResponseAsync_Rejected:
  "body response = None \<Longrightarrow>
   \<exists>st'. sendResponseAsync js request response (Rejected (Err e)) st = Inr st' \<and>
     sent st' = sent st @ [SentResponse
       (if toString e = ''unknowncommand''
        then response\<lparr>success := False,
               error := Some \<lparr>error_id = 1014, error_format = ''Unrecognized request'',
                              error_variables = None, error_destination = Telemetry\<rparr>\<rparr>
        else response\<lparr>message :=
                 Some ((if command request = ''evaluate'' then []
                        else ''[webkit-debug-adapter] '') @ toString e),
               success := False\<rparr>)]"
  using sendErrorResponse_no_body
    [of response js 1014 "''Unrecognized request''" None Telemetry st]
  by (auto simp: sendResponseAsync_def Let_def sendResponse_no_body)

lemma sendResponseAsync_Rejected_no_members:
  "\<not> has_members e \<Longrightarrow>
   \<exists>err. sendResponseAsync js request response (Rejected e) st = Inl (err, st)"
  by (cases e) (simp_all add: sendResponseAsync_def)

lemma sendResponseAsync_Pending:
  "sendResponseAsync js request response Pending st = Inr st"
  by (simp add: sendResponseAsync_def)

text \<open>
  A dispatch that settles with a workable value is answered by exactly one Response, which
  carries the id and the command of the request.
\<close>

lemma dispatchRequest_workable:
  assumes "workable js dispatched"
  shows "\<exists>st' r. dispatchRequest js request dispatched st = Inr st' \<and>
           sent st' = sent st @ [SentResponse r] \<and>
           request_seq r = seq request \<and> response_command r = command request"
proof (cases dispatched)
  case (Throws e)
  with assms obtain x where e: "e = Err x"
    by (cases e) simp_all
  let ?st1 = "Logger_log (''From client: '' @ command request @ ''('' @
                  stringify_arguments js (arguments request) @ '')'') st"
  have "\<exists>st'. sendErrorResponse js (new_Response request) 1104
       ''Exception while processing request (exception: {_exception})''
       (Some [(''_exception'', message_of x)]) Telemetry ?st1 = Inr st' \<and>
    sent st' = sent ?st1 @ [SentResponse ((new_Response request)\<lparr>success := False,
       error := Some \<lparr>error_id = 1104,
         error_format = ''Exception while processing request (exception: {_exception})'',
         error_variables = Some [(''_exception'', message_of x)],
         error_destination = Telemetry\<rparr>\<rparr>)]"
    by (rule sendErrorResponse_no_body) simp
  with Throws e show ?thesis
    by (auto simp: dispatchRequest_def dispatchRequest_try_def Let_def new_Response_def)
next
  case (Returns p)
  let ?st1 = "Logger_log (''From client: '' @ command request @ ''('' @
                  stringify_arguments js (arguments request) @ '')'') st"
  show ?thesis
  proof (cases p)
    case (Fulfilled b)
    show ?thesis
    proof (cases b)
      case None
      with Returns Fulfilled show ?thesis
        by (simp add: dispatchRequest_def dispatchRequest_try_def Let_def
            sendResponseAsync_def sendResponse_no_body new_Response_def)
    next
      case (Some v)
      with assms Returns Fulfilled have "serialisable js v" by simp
      with Returns Fulfilled Some show ?thesis
        by (simp add: dispatchRequest_def dispatchRequest_try_def Let_def
            sendResponseAsync_def sendResponse_serialisable new_Response_def)
    qed
  next
    case (Rejected e)
    with assms Returns obtain x where e: "e = Err x"
      by (cases e) simp_all
    obtain st' r where
      "sendResponseAsync js request (new_Response request) (Rejected (Err x)) ?st1 = Inr st'"
      "sent st' = sent ?st1 @ [SentResponse r]"
      "request_seq r = seq request" "response_command r = command request"
      using sendResponseAsync_Rejected
        [where response = "new_Response request" and js = js and request = request
           and e = x and st = ?st1]
      by (auto simp: new_Response_def)
    with Returns Rejected e show ?thesis
      by (simp add: dispatchRequest_def dispatchRequest_try_def Let_def)
  next
    case Pending
    with assms Returns show ?thesis by simp
  qed
qed

text \<open>
  Any other dispatch sends nothing, whether \<^verbatim>\<open>dispatchRequest\<close> returns or raises: the
  promise never settles, or a callback raises on a value without members or on a body
  that cannot be serialised, or the \<^verbatim>\<open>catch\<close> block raises on a thrown value without
  members.
\<close>

lemma dispatchRequest_not_workable:
  assumes "\<not> workable js dispatched"
  shows "sent (after_callback (dispatchRequest js request dispatched st)) = sent st"
proof (cases dispatched)
  case (Throws e)
  with assms have "\<not> has_members e" by simp
  then have "\<exists>err. e_message e = Inl err"
    by (cases e) simp_all
  with Throws show ?thesis
    by (auto simp: dispatchRequest_def dispatchRequest_try_def Let_def)
next
  case (Returns p)
  show ?thesis
  proof (cases p)
    case (Fulfilled b)
    with assms Returns obtain v where "b = Some v" "\<not> serialisable js v"
      by (cases b) simp_all
    with Returns Fulfilled show ?thesis
      by (simp add: dispatchRequest_def dispatchRequest_try_def Let_def
          sendResponseAsync_def sendResponse_circular)
  next
    case (Rejected e)
    with assms Returns have "\<not> has_members e" by simp
    then obtain err where
      "\<And>st1. sendResponseAsync js request (new_Response request) (Rejected e) st1 =
         Inl (err, st1)"
      by (cases e) (simp_all add: sendResponseAsync_def)
    with Returns Rejected show ?thesis
      by (simp add: dispatchRequest_def dispatchRequest_try_def Let_def)
  next
    case Pending
    with Returns show ?thesis
      by (simp add: dispatchRequest_def dispatchRequest_try_def Let_def
          sendResponseAsync_Pending)
  qed
qed

text \<open>
  A throw of a value that has members is caught and answered with the error Response of
  code 1104, which carries the message of the exception and is destined for telemetry.
\<close>

lemma throw_with_members_answered:
  "\<exists>st1. dispatchRequest js request (Throws (Err e)) st = Inr st1 \<and>
     sent st1 = sent st @ [SentResponse
       ((new_Response request)\<lparr>success := False,
          error := Some \<lparr>error_id = 1104,
            error_format = ''Exception while processing request (exception: {_exception})'',
            error_variables = Some [(''_exception'', message_of e)],
            error_destination = Telemetry\<rparr>\<rparr>)]"
proof -
  let ?st1 = "Logger_log (''From client: '' @ command request @ ''('' @
                  stringify_arguments js (arguments request) @ '')'') st"
  have "\<exists>st1. sendErrorResponse js (new_Response request) 1104
       ''Exception while processing request (exception: {_exception})''
       (Some [(''_exception'', message_of e)]) Telemetry ?st1 = Inr st1 \<and>
     sent st1 = sent ?st1 @ [SentResponse
       ((new_Response request)\<lparr>success := False,
          error := Some \<lparr>error_id = 1104,
            error_format = ''Exception while processing request (exception: {_exception})'',
            error_variables = Some [(''_exception'', message_of e)],
            error_destination = Telemetry\<rparr>\<rparr>)]"
    by (rule sendErrorResponse_no_body) simp
  then show ?thesis
    by (simp add: dispatchRequest_def dispatchRequest_try_def Let_def)
qed

lemma dispatchRequest_console_off:
  assumes off: "\<not> (ALLOW_LOGGING st \<and> (\<exists>this. logger st = Some this \<and> isServer this))"
  shows "console (after_callback (dispatchRequest js request dispatched st)) = console st"
proof -
  have quiet: "Logger_log msg st = st" for msg
    using off by (rule console_Logger_log_off)
  have resp: "console (after_callback (sendResponse js r st)) = console st" for r
    by (simp add: sendResponse_def super_sendResponse_def quiet split: sum.splits)
  have err: "console (after_callback (sendErrorResponse js r c f a d st)) = console st"
    for r c f a d
    by (simp add: sendErrorResponse_def resp)
  have async: "console (after_callback (sendResponseAsync js request r p st)) = console st"
    for r p
    by (cases p) (simp_all add: sendResponseAsync_def Let_def resp err quiet split: sum.splits)
  show ?thesis
  proof (cases dispatched)
    case (Throws e)
    then show ?thesis
      by (simp add: dispatchRequest_def dispatchRequest_try_def Let_def quiet err
          split: sum.splits)
  next
    case (Returns p)
    then show ?thesis
      by (simp add: dispatchRequest_def dispatchRequest_try_def Let_def quiet async)
  qed
qed

section \<open>Facts about the adapter\<close>

lemma string_of_nat_small: "n < 10 \<Longrightarrow> string_of_nat n = [digit n]"
  by (simp add: string_of_nat.simps)

lemma string_of_nat_big:
  "\<not> n < 10 \<Longrightarrow> string_of_nat n = string_of_nat (n div 10) @ [digit (n mod 10)]"
  by (subst string_of_nat.simps) simp

lemma launch_chromeArgs_parts:
  "launch_chromeArgs env args =
     [''--remote-debugging-port='' @ string_of_nat (launch_port args),
      ''--no-first-run'', ''--no-default-browser-check''] @
     (case runtimeArgs args of None \<Rightarrow> [] | Some extra \<Rightarrow> extra) @
     (case userDataDir args of
        None \<Rightarrow> [] | Some dir \<Rightarrow> if dir = [] then [] else [''--user-data-dir='' @ dir]) @
     (case launch_launchUrl env args of
        None \<Rightarrow> [] | Some launchUrl \<Rightarrow> if launchUrl = [] then [] else [launchUrl])"
  by (simp add: launch_chromeArgs_def Let_def split: option.splits)

lemma launch_spawns:
  assumes "launch_chromePath env args = Some chromePath" and "chromePath \<noteq> []"
  shows "launch env args this =
     (Attaching, this\<lparr>chromeProc := Some (spawn env chromePath (launch_chromeArgs env args))\<rparr>,
      [SetupLogging args,
       LoggerLog (''spawn('' @ [CHR 0x27] @ chromePath @ [CHR 0x27] @ '', '' @
                  stringify_args env (launch_chromeArgs env args) @ '')''),
       Spawn chromePath (launch_chromeArgs env args),
       Unref (spawn env chromePath (launch_chromeArgs env args)),
       On (spawn env chromePath (launch_chromeArgs env args)) ''error'' launch_onError,
       DoAttach (launch_port args) (launch_launchUrl env args) (address args)])"
  using assms by (simp add: launch_def Let_def)

section \<open>The claims\<close>

subsection \<open>One Response per request\<close>

text \<open>
  C1. Every dispatch whose outcome is settled should be answered by exactly one Response
  with the id of the request; the comment on \<^verbatim>\<open>sendResponseAsync\<close> says that, when the
  promise fails, the response parameters are set and the response is sent. The code does
  so for the workable dispatches (\<open>dispatchRequest_workable\<close>), and not for the others.
  When the promise is rejected with \<^verbatim>\<open>undefined\<close> or \<^verbatim>\<open>null\<close>, the first statement of
  the rejection callback, \<^verbatim>\<open>e.toString()\<close>, raises a TypeError inside the callback;
  \<^verbatim>\<open>dispatchRequest\<close> has returned, nothing is sent then or later, and no Response answers
  the request with id 7. The same happens when the promise is fulfilled with a body that
  \<^verbatim>\<open>JSON.stringify\<close> cannot serialise.
\<close>

theorem rejection_with_undefined_unanswered:
  "sendResponseAsync example_JSON (example_request ''next'')
     (new_Response (example_request ''next'')) (Rejected Undefined) example_session =
     Inl (TypeError_member ''toString'' ''undefined'', example_session) \<and>
   dispatchRequest example_JSON (example_request ''next'') (Returns (Rejected Undefined))
     example_session = Inr (example_session\<lparr>console := [''From client: next({})'']\<rparr>) \<and>
   dispatchRequest example_JSON (example_request ''next'') (Returns (Rejected Null))
     example_session = Inr (example_session\<lparr>console := [''From client: next({})'']\<rparr>) \<and>
   dispatchRequest example_JSON (example_request ''next'')
     (Returns (Fulfilled (Some ''[Circular]''))) example_session =
     Inr (example_session\<lparr>console := [''From client: next({})'']\<rparr>) \<and>
   sent (example_session\<lparr>console := [''From client: next({})'']\<rparr>) = [] \<and>
   responses_to 7 (example_session\<lparr>console := [''From client: next({})'']\<rparr>) = []"
  by (simp add: dispatchRequest_def dispatchRequest_try_def sendResponseAsync_def
      sendResponse_def JSON_stringify_response_def Logger_log_def Logger__log_def
      example_JSON_def example_request_def example_session_def responses_to_def Let_def)

subsection \<open>Classification of a rejection\<close>



subsection \<open>A synchronous throw\<close>

text \<open>
  C3. A throw of the adapter proxy should be caught and answered with the error Response
  of code 1104, and no exception should leave \<^verbatim>\<open>dispatchRequest\<close>. The code does so for
  every thrown value that has members (\<open>throw_with_members_answered\<close>). When the value
  thrown is \<^verbatim>\<open>undefined\<close> or \<^verbatim>\<open>null\<close>, the \<^verbatim>\<open>catch\<close> block evaluates \<^verbatim>\<open>e.message\<close>
  for the arguments of \<^verbatim>\<open>sendErrorResponse\<close>, which raises a TypeError: the TypeError
  leaves \<^verbatim>\<open>dispatchRequest\<close> and nothing is sent.
\<close>

theorem throw_of_undefined_escapes:
  "dispatchRequest example_JSON (example_request ''next'') (Throws Undefined)
     example_session =
     Inl (TypeError_member ''message'' ''undefined'',
          example_session\<lparr>console := [''From client: next({})'']\<rparr>) \<and>
   dispatchRequest example_JSON (example_request ''next'') (Throws Null)
     example_session =
     Inl (TypeError_member ''message'' ''null'',
          example_session\<lparr>console := [''From client: next({})'']\<rparr>) \<and>
   sent (example_session\<lparr>console := [''From client: next({})'']\<rparr>) = []"
  by (simp add: dispatchRequest_def dispatchRequest_try_def Logger_log_def Logger__log_def
      example_JSON_def example_request_def example_session_def Let_def)

subsection \<open>The argument list of the spawned process\<close>

text \<open>
  C4. When an executable is found, \<^verbatim>\<open>launch\<close> spawns exactly one process, and its
  argument list is, in this order: the flag \<^verbatim>\<open>--remote-debugging-port=\<close> with the port
  (9222 when no port is given), \<^verbatim>\<open>--no-first-run\<close>, \<^verbatim>\<open>--no-default-browser-check\<close>,
  the runtime arguments of the caller as they are, \<^verbatim>\<open>--user-data-dir=\<close> with the directory
  when one is given, and last the launch URL when there is one. The launch URL is the file
  path converted by \<^verbatim>\<open>pathToFileURL\<close> when a file is given, else the url when one is given;
  with neither there is none. For port 9000, runtime arguments \<^verbatim>\<open>--foo\<close>, user data
  directory \<^verbatim>\<open>/tmp/d\<close> and file \<^verbatim>\<open>/a/b.html\<close>, which \<^verbatim>\<open>pathToFileURL\<close> converts to
  \<^verbatim>\<open>file:///a/b.html\<close>, the list is the one of the specification.
\<close>

theorem launch_argv:
  assumes "launch_chromePath env args = Some chromePath" and "chromePath \<noteq> []"
  shows "filter is_Spawn (snd (snd (launch env args this))) =
           [Spawn chromePath
             ([''--remote-debugging-port='' @
                 string_of_nat (case port args of None \<Rightarrow> 9222
                                | Some p \<Rightarrow> if p = 0 then 9222 else p),
               ''--no-first-run'', ''--no-default-browser-check''] @
              (case runtimeArgs args of None \<Rightarrow> [] | Some extra \<Rightarrow> extra) @
              (case userDataDir args of
                 None \<Rightarrow> []
               | Some dir \<Rightarrow> if dir = [] then [] else [''--user-data-dir='' @ dir]) @
              (case launch_launchUrl env args of
                 None \<Rightarrow> []
               | Some launchUrl \<Rightarrow> if launchUrl = [] then [] else [launchUrl]))] \<and>
         launch_launchUrl env args =
           (case file' args of
              Some f \<Rightarrow>
                if f \<noteq> [] then Some (pathToFileURL env f)
                else (case url args of None \<Rightarrow> None | Some u \<Rightarrow> if u \<noteq> [] then Some u else None)
            | None \<Rightarrow>
                (case url args of None \<Rightarrow> None | Some u \<Rightarrow> if u \<noteq> [] then Some u else None)) \<and>
         (file' args = None \<and> url args = None \<longrightarrow> launch_launchUrl env args = None) \<and>
         (port args = Some 9000 \<and> runtimeArgs args = Some [''--foo''] \<and>
          userDataDir args = Some ''/tmp/d'' \<and> file' args = Some ''/a/b.html'' \<and>
          pathToFileURL env ''/a/b.html'' = ''file:///a/b.html'' \<longrightarrow>
          filter is_Spawn (snd (snd (launch env args this))) =
            [Spawn chromePath
               [''--remote-debugging-port=9000'', ''--no-first-run'',
                ''--no-default-browser-check'', ''--foo'', ''--user-data-dir=/tmp/d'',
                ''file:///a/b.html'']])"
proof (intro conjI impI)
  show "filter is_Spawn (snd (snd (launch env args this))) =
           [Spawn chromePath
             ([''--remote-debugging-port='' @
                 string_of_nat (case port args of None \<Rightarrow> 9222
                                | Some p \<Rightarrow> if p = 0 then 9222 else p),
               ''--no-first-run'', ''--no-default-browser-check''] @
              (case runtimeArgs args of None \<Rightarrow> [] | Some extra \<Rightarrow> extra) @
              (case userDataDir args of
                 None \<Rightarrow> []
               | Some dir \<Rightarrow> if dir = [] then [] else [''--user-data-dir='' @ dir]) @
              (case launch_launchUrl env args of
                 None \<Rightarrow> []
               | Some launchUrl \<Rightarrow> if launchUrl = [] then [] else [launchUrl]))]"
    by (simp add: launch_spawns [OF assms] launch_chromeArgs_parts launch_port_def)
next
  show "launch_launchUrl env args =
           (case file' args of
              Some f \<Rightarrow>
                if f \<noteq> [] then Some (pathToFileURL env f)
                else (case url args of None \<Rightarrow> None | Some u \<Rightarrow> if u \<noteq> [] then Some u else None)
            | None \<Rightarrow>
                (case url args of None \<Rightarrow> None | Some u \<Rightarrow> if u \<noteq> [] then Some u else None))"
    by (simp add: launch_launchUrl_def split: option.splits)
next
  assume "file' args = None \<and> url args = None"
  then show "launch_launchUrl env args = None"
    by (simp add: launch_launchUrl_def)
next
  assume ex: "port args = Some 9000 \<and> runtimeArgs args = Some [''--foo''] \<and>
          userDataDir args = Some ''/tmp/d'' \<and> file' args = Some ''/a/b.html'' \<and>
          pathToFileURL env ''/a/b.html'' = ''file:///a/b.html''"
  have nine: "string_of_nat 9000 = ''9000''"
    by (simp add: string_of_nat_small string_of_nat_big digit_def)
  from ex have "launch_launchUrl env args = Some ''file:///a/b.html''"
    by (simp add: launch_launchUrl_def)
  with ex nine have "launch_chromeArgs env args =
      [''--remote-debugging-port=9000'', ''--no-first-run'', ''--no-default-browser-check'',
       ''--foo'', ''--user-data-dir=/tmp/d'', ''file:///a/b.html'']"
    by (simp add: launch_chromeArgs_parts launch_port_def)
  then show "filter is_Spawn (snd (snd (launch env args this))) =
            [Spawn chromePath
               [''--remote-debugging-port=9000'', ''--no-first-run'',
                ''--no-default-browser-check'', ''--foo'', ''--user-data-dir=/tmp/d'',
                ''file:///a/b.html'']]"
    by (simp add: launch_spawns [OF assms])
qed

text \<open>The same at concrete values.\<close>

theorem launch_argv_witness:
  "launch_chromePath example_surroundings example_args = Some ''/usr/bin/chrome'' \<and>
   ''/usr/bin/chrome'' \<noteq> [] \<and>
   pathToFileURL example_surroundings ''/a/b.html'' = ''file:///a/b.html'' \<and>
   filter is_Spawn (snd (snd (launch example_surroundings example_args \<lparr>chromeProc = None\<rparr>))) =
     [Spawn ''/usr/bin/chrome''
        [''--remote-debugging-port=9000'', ''--no-first-run'', ''--no-default-browser-check'',
         ''--foo'', ''--user-data-dir=/tmp/d'', ''file:///a/b.html'']] \<and>
   file' (example_args\<lparr>file' := None\<rparr>) = None \<and> url (example_args\<lparr>file' := None\<rparr>) = None \<and>
   launch_launchUrl example_surroundings (example_args\<lparr>file' := None\<rparr>) = None \<and>
   filter is_Spawn
     (snd (snd (launch example_surroundings (example_args\<lparr>file' := None\<rparr>)
        \<lparr>chromeProc = None\<rparr>))) =
     [Spawn ''/usr/bin/chrome''
        [''--remote-debugging-port=9000'', ''--no-first-run'', ''--no-default-browser-check'',
         ''--foo'', ''--user-data-dir=/tmp/d'']]"
proof -
  have p1: "launch_chromePath example_surroundings example_args = Some ''/usr/bin/chrome''"
    by (simp add: launch_chromePath_def example_surroundings_def example_args_def)
  have p2: "launch_chromePath example_surroundings (example_args\<lparr>file' := None\<rparr>) =
      Some ''/usr/bin/chrome''"
    by (simp add: launch_chromePath_def example_surroundings_def example_args_def)
  have ne: "''/usr/bin/chrome'' \<noteq> []"
    by simp
  have nine: "string_of_nat 9000 = ''9000''"
    by (simp add: string_of_nat_small string_of_nat_big digit_def)
  have conv: "pathToFileURL example_surroundings ''/a/b.html'' = ''file:///a/b.html''"
    by (simp add: example_surroundings_def)
  note with_file = launch_argv [OF p1 ne, of "\<lparr>chromeProc = None\<rparr>"]
  note without = launch_argv [OF p2 ne, of "\<lparr>chromeProc = None\<rparr>"]
  have a: "filter is_Spawn
      (snd (snd (launch example_surroundings example_args \<lparr>chromeProc = None\<rparr>))) =
     [Spawn ''/usr/bin/chrome''
        [''--remote-debugging-port=9000'', ''--no-first-run'', ''--no-default-browser-check'',
         ''--foo'', ''--user-data-dir=/tmp/d'', ''file:///a/b.html'']]"
    using with_file conv nine by (simp add: example_args_def)
  have b: "launch_launchUrl example_surroundings (example_args\<lparr>file' := None\<rparr>) = None"
    using without by (simp add: example_args_def)
  have c: "filter is_Spawn
     (snd (snd (launch example_surroundings (example_args\<lparr>file' := None\<rparr>)
        \<lparr>chromeProc = None\<rparr>))) =
     [Spawn ''/usr/bin/chrome''
        [''--remote-debugging-port=9000'', ''--no-first-run'', ''--no-default-browser-check'',
         ''--foo'', ''--user-data-dir=/tmp/d'']]"
    using without b nine by (simp add: example_args_def)
  from p1 ne conv a b c show ?thesis
    by (simp add: example_args_def)
qed

subsection \<open>Disconnect is idempotent\<close>

text \<open>
  C5. \<^verbatim>\<open>disconnect\<close> with no handle held changes nothing and only calls the base
  teardown. With a handle held it sends \<^verbatim>\<open>SIGINT\<close> to the process, clears the handle and
  then calls the base teardown. In every case the handle is cleared afterwards, the base
  teardown is the last call, and a second \<^verbatim>\<open>disconnect\<close> only calls the base teardown.
\<close>

theorem disconnect_idempotent:
  "(chromeProc this = None \<longrightarrow> disconnect this = (this, [SuperDisconnect])) \<and>
   (chromeProc this = Some proc \<longrightarrow>
      disconnect this = (this\<lparr>chromeProc := None\<rparr>, [Kill proc ''SIGINT'', SuperDisconnect])) \<and>
   chromeProc (fst (disconnect this)) = None \<and>
   last (snd (disconnect this)) = SuperDisconnect \<and>
   disconnect (fst (disconnect this)) = (fst (disconnect this), [SuperDisconnect])"
  by (cases "chromeProc this") (simp_all add: disconnect_def)

text \<open>The same at concrete values.\<close>

theorem disconnect_idempotent_witness:
  "chromeProc \<lparr>chromeProc = None\<rparr> = None \<and>
   disconnect \<lparr>chromeProc = None\<rparr> = (\<lparr>chromeProc = None\<rparr>, [SuperDisconnect]) \<and>
   chromeProc \<lparr>chromeProc = Some 4711\<rparr> = Some 4711 \<and>
   disconnect \<lparr>chromeProc = Some 4711\<rparr> =
     (\<lparr>chromeProc = None\<rparr>, [Kill 4711 ''SIGINT'', SuperDisconnect]) \<and>
   disconnect (fst (disconnect \<lparr>chromeProc = Some 4711\<rparr>)) =
     (\<lparr>chromeProc = None\<rparr>, [SuperDisconnect])"
  using disconnect_idempotent [of "\<lparr>chromeProc = None\<rparr>" 0]
    disconnect_idempotent [of "\<lparr>chromeProc = Some 4711\<rparr>" 4711]
  by simp

subsection \<open>No executable, no process\<close>

text \<open>
  C6. With no executable path in the launch configuration and none found by
  \<^verbatim>\<open>getBrowserPath\<close>, \<^verbatim>\<open>launch\<close> returns the rejected promise of \<^verbatim>\<open>errP\<close> with the
  message that Chrome cannot be found, leaves the adapter as it was, and spawns no
  process.
\<close>

theorem launch_without_executable:
  assumes "\<not> truthy (runtimeExecutable args)" and "\<not> truthy (getBrowserPath env)"
  shows "launch env args this = (ErrP cant_find_Chrome, this, [SetupLogging args]) \<and>
         filter is_Spawn (snd (snd (launch env args this))) = [] \<and>
         cant_find_Chrome =
           ''Can'' @ [CHR 0x27] @ ''t find Chrome - install it or set the '' @ [CHR 0x22] @
           ''runtimeExecutable'' @ [CHR 0x22] @ '' field in the launch config.''"
proof -
  from assms have "\<not> truthy (launch_chromePath env args)"
    by (simp add: launch_chromePath_def)
  then have "launch env args this = (ErrP cant_find_Chrome, this, [SetupLogging args])"
    by (cases "launch_chromePath env args") (simp_all add: launch_def)
  then show ?thesis
    by (simp add: cant_find_Chrome_def)
qed

text \<open>The same at concrete values.\<close>

theorem launch_without_executable_witness:
  "\<not> truthy (runtimeExecutable example_args) \<and>
   \<not> truthy (getBrowserPath (example_surroundings\<lparr>getBrowserPath := None\<rparr>)) \<and>
   launch (example_surroundings\<lparr>getBrowserPath := None\<rparr>) example_args \<lparr>chromeProc = None\<rparr> =
     (ErrP cant_find_Chrome, \<lparr>chromeProc = None\<rparr>, [SetupLogging example_args]) \<and>
   filter is_Spawn
     (snd (snd (launch (example_surroundings\<lparr>getBrowserPath := None\<rparr>) example_args
        \<lparr>chromeProc = None\<rparr>))) = []"
proof -
  have h1: "\<not> truthy (runtimeExecutable example_args)"
    by (simp add: example_args_def)
  have h2: "\<not> truthy (getBrowserPath (example_surroundings\<lparr>getBrowserPath := None\<rparr>))"
    by simp
  show ?thesis
    using h1 h2 launch_without_executable [OF h1 h2, of "\<lparr>chromeProc = None\<rparr>"]
    by simp
qed

subsection \<open>An error of the child process ends the session\<close>

text \<open>
  C7. When \<^verbatim>\<open>launch\<close> spawns a process, it keeps the handle, spawns exactly once and
  registers exactly one listener, for the \<^verbatim>\<open>error\<close> event of that handle. For every
  value of the event, \<^verbatim>\<open>undefined\<close> and \<^verbatim>\<open>null\<close> among them, that one listener returns
  normally after two calls: it logs the error, then it terminates the session. It raises
  nothing, spawns nothing and registers nothing. \<^verbatim>\<open>launch\<close> has returned the promise of
  \<^verbatim>\<open>doAttach\<close> before any event, whatever the event will be.
\<close>

theorem child_error_terminates_session:
  assumes "launch_chromePath env args = Some chromePath" and "chromePath \<noteq> []"
  shows "chromeProc (fst (snd (launch env args this))) =
           Some (spawn env chromePath (launch_chromeArgs env args)) \<and>
         filter is_On (snd (snd (launch env args this))) =
           [On (spawn env chromePath (launch_chromeArgs env args)) ''error'' launch_onError] \<and>
         filter is_Spawn (snd (snd (launch env args this))) =
           [Spawn chromePath (launch_chromeArgs env args)] \<and>
         fst (launch env args this) = Attaching \<and>
         (\<forall>err. launch_onError err =
            Inr [LoggerLog (''chrome error: '' @ ToString err), TerminateSession]) \<and>
         (\<forall>err calls. launch_onError err = Inr calls \<longrightarrow>
            filter is_Spawn calls = [] \<and> filter is_On calls = [] \<and>
            last calls = TerminateSession)"
proof -
  have handler: "launch_onError err =
      Inr [LoggerLog (''chrome error: '' @ ToString err), TerminateSession]" for err
    by (simp add: launch_onError_def)
  have quiet: "filter is_Spawn calls = [] \<and> filter is_On calls = [] \<and>
      last calls = TerminateSession" if "launch_onError err = Inr calls" for err calls
    using that by (auto simp: launch_onError_def)
  show ?thesis
    using handler quiet by (simp add: launch_spawns [OF assms])
qed

text \<open>The same at concrete values.\<close>

theorem child_error_terminates_session_witness:
  "launch_chromePath example_surroundings example_args = Some ''/usr/bin/chrome'' \<and>
   ''/usr/bin/chrome'' \<noteq> [] \<and>
   chromeProc (fst (snd (launch example_surroundings example_args \<lparr>chromeProc = None\<rparr>))) =
     Some 4711 \<and>
   filter is_On (snd (snd (launch example_surroundings example_args \<lparr>chromeProc = None\<rparr>))) =
     [On 4711 ''error'' launch_onError] \<and>
   length (filter is_Spawn
     (snd (snd (launch example_surroundings example_args \<lparr>chromeProc = None\<rparr>)))) = 1 \<and>
   fst (launch example_surroundings example_args \<lparr>chromeProc = None\<rparr>) = Attaching \<and>
   launch_onError (Err (JError ''Error'' ''spawn ENOENT'')) =
     Inr [LoggerLog ''chrome error: Error: spawn ENOENT'', TerminateSession] \<and>
   launch_onError Undefined = Inr [LoggerLog ''chrome error: undefined'', TerminateSession] \<and>
   filter is_Spawn [LoggerLog ''chrome error: Error: spawn ENOENT'', TerminateSession] = [] \<and>
   filter is_On [LoggerLog ''chrome error: Error: spawn ENOENT'', TerminateSession] = []"
proof -
  have p: "launch_chromePath example_surroundings example_args = Some ''/usr/bin/chrome''"
    by (simp add: launch_chromePath_def example_surroundings_def example_args_def)
  have ne: "''/usr/bin/chrome'' \<noteq> []"
    by simp
  have handle: "spawn example_surroundings path argv = 4711" for path argv
    by (simp add: example_surroundings_def)
  note inst = child_error_terminates_session [OF p ne, of "\<lparr>chromeProc = None\<rparr>"]
  show ?thesis
    using p ne inst by (simp add: handle)
qed

subsection \<open>Logging is off outside server mode\<close>

text \<open>
  C8. Unless \<^verbatim>\<open>ALLOW_LOGGING\<close> is true and the singleton was initialised in server mode,
  any number of calls of \<^verbatim>\<open>Logger.log\<close> leaves the console as it was; so it does after
  \<^verbatim>\<open>Logger.init(false)\<close>, so does any number of firings of the timer, and so does a
  whole \<^verbatim>\<open>dispatchRequest\<close> of a session constructed with \<^verbatim>\<open>isServer = false\<close>,
  whether it returns or raises. After \<^verbatim>\<open>Logger.init(true)\<close> with \<^verbatim>\<open>ALLOW_LOGGING\<close> true,
  every message is written, in order.
\<close>

theorem Logger_log_suppressed:
  "(\<not> (ALLOW_LOGGING st \<and> (\<exists>this. logger st = Some this \<and> isServer this)) \<longrightarrow>
      console (log_all msgs st) = console st) \<and>
   console (log_all msgs (Logger_init False st)) = console st \<and>
   console ((interval_tick ^^ n) (Logger_init False st)) = console st \<and>
   (ALLOW_LOGGING st \<longrightarrow> console (log_all msgs (Logger_init True st)) = console st @ msgs) \<and>
   (dispatchRequest js request dispatched (WebKitDebugSession False st0) = Inr st' \<longrightarrow>
      console st' = console st0) \<and>
   (dispatchRequest js request2 dispatched2 (WebKitDebugSession False st0) = Inl (err, st2) \<longrightarrow>
      console st2 = console st0)"
proof (intro conjI impI)
  assume "\<not> (ALLOW_LOGGING st \<and> (\<exists>this. logger st = Some this \<and> isServer this))"
  then show "console (log_all msgs st) = console st"
    by (simp add: log_all_off)
next
  have "log_all msgs (Logger_init False st) = Logger_init False st"
    by (rule log_all_off) (simp add: Logger_init_def)
  then show "console (log_all msgs (Logger_init False st)) = console st"
    by (simp add: Logger_init_def)
next
  have "(interval_tick ^^ n) (Logger_init False st) = Logger_init False st"
    by (rule interval_ticks_off) (simp add: Logger_init_def)
  then show "console ((interval_tick ^^ n) (Logger_init False st)) = console st"
    by (simp add: Logger_init_def)
next
  assume "ALLOW_LOGGING st"
  then have "log_all msgs (Logger_init True st) =
      (Logger_init True st)\<lparr>console := console (Logger_init True st) @ msgs\<rparr>"
    by (intro log_all_on [where this = "\<lparr>isServer = True\<rparr>"]) (simp_all add: Logger_init_def)
  then show "console (log_all msgs (Logger_init True st)) = console st @ msgs"
    by (simp add: Logger_init_def)
next
  have off: "\<not> (ALLOW_LOGGING (WebKitDebugSession False st0) \<and>
      (\<exists>this. logger (WebKitDebugSession False st0) = Some this \<and> isServer this))"
    by (simp add: WebKitDebugSession_def Logger_init_def)
  assume "dispatchRequest js request dispatched (WebKitDebugSession False st0) = Inr st'"
  with dispatchRequest_console_off [OF off, of js request dispatched]
  have "console st' = console (WebKitDebugSession False st0)"
    by simp
  then show "console st' = console st0"
    by (simp add: WebKitDebugSession_def Logger_init_def)
next
  have off: "\<not> (ALLOW_LOGGING (WebKitDebugSession False st0) \<and>
      (\<exists>this. logger (WebKitDebugSession False st0) = Some this \<and> isServer this))"
    by (simp add: WebKitDebugSession_def Logger_init_def)
  assume "dispatchRequest js request2 dispatched2 (WebKitDebugSession False st0) = Inl (err, st2)"
  with dispatchRequest_console_off [OF off, of js request2 dispatched2]
  have "console st2 = console (WebKitDebugSession False st0)"
    by simp
  then show "console st2 = console st0"
    by (simp add: WebKitDebugSession_def Logger_init_def)
qed

text \<open>The same at concrete values.\<close>

theorem Logger_log_suppressed_witness:
  "\<not> (ALLOW_LOGGING example_statics \<and>
        (\<exists>this. logger example_statics = Some this \<and> isServer this)) \<and>
   console (log_all [''a'', ''b'', ''c''] example_statics) = [''kept''] \<and>
   console (log_all [''a'', ''b'', ''c''] (Logger_init False example_statics)) = [''kept''] \<and>
   console ((interval_tick ^^ 3) (Logger_init False example_statics)) = [''kept''] \<and>
   ALLOW_LOGGING example_statics \<and>
   console (log_all [''a'', ''b'', ''c''] (Logger_init True example_statics)) =
     [''kept'', ''a'', ''b'', ''c''] \<and>
   dispatchRequest example_JSON (example_request ''next'') (Returns (Fulfilled None))
     (WebKitDebugSession False example_session) =
     Inr (example_session
       \<lparr>logger := Some \<lparr>isServer = False\<rparr>, intervals := 2,
        sent := [SentResponse (new_Response (example_request ''next''))]\<rparr>) \<and>
   console (example_session
       \<lparr>logger := Some \<lparr>isServer = False\<rparr>, intervals := 2,
        sent := [SentResponse (new_Response (example_request ''next''))]\<rparr>) =
     console example_session \<and>
   dispatchRequest example_JSON (example_request ''next'') (Throws Undefined)
     (WebKitDebugSession False example_session) =
     Inl (TypeError_member ''message'' ''undefined'',
          example_session\<lparr>logger := Some \<lparr>isServer = False\<rparr>, intervals := 2\<rparr>) \<and>
   console (example_session\<lparr>logger := Some \<lparr>isServer = False\<rparr>, intervals := 2\<rparr>) =
     console example_session"
proof -
  have off: "\<not> (ALLOW_LOGGING example_statics \<and>
        (\<exists>this. logger example_statics = Some this \<and> isServer this))"
    by (simp add: example_statics_def)
  have on: "ALLOW_LOGGING example_statics"
    by (simp add: example_statics_def)
  have run: "dispatchRequest example_JSON (example_request ''next'') (Returns (Fulfilled None))
     (WebKitDebugSession False example_session) =
     Inr (example_session
       \<lparr>logger := Some \<lparr>isServer = False\<rparr>, intervals := 2,
        sent := [SentResponse (new_Response (example_request ''next''))]\<rparr>)"
    by (simp add: dispatchRequest_def dispatchRequest_try_def sendResponseAsync_def
        sendResponse_def JSON_stringify_response_def super_sendResponse_def Logger_log_def
        Logger__log_def WebKitDebugSession_def Logger_init_def example_session_def
        new_Response_def Let_def)
  have escape: "dispatchRequest example_JSON (example_request ''next'') (Throws Undefined)
     (WebKitDebugSession False example_session) =
     Inl (TypeError_member ''message'' ''undefined'',
          example_session\<lparr>logger := Some \<lparr>isServer = False\<rparr>, intervals := 2\<rparr>)"
    by (simp add: dispatchRequest_def dispatchRequest_try_def Logger_log_def
        Logger__log_def WebKitDebugSession_def Logger_init_def example_session_def Let_def)
  note inst = Logger_log_suppressed
      [of example_statics "[''a'', ''b'', ''c'']" 3 example_JSON "example_request ''next''"
          "Returns (Fulfilled None)" example_session
          "example_session
             \<lparr>logger := Some \<lparr>isServer = False\<rparr>, intervals := 2,
              sent := [SentResponse (new_Response (example_request ''next''))]\<rparr>"
          "example_request ''next''" "Throws Undefined"
          "TypeError_member ''message'' ''undefined''"
          "example_session\<lparr>logger := Some \<lparr>isServer = False\<rparr>, intervals := 2\<rparr>"]
  show ?thesis
    using off on run escape inst by (simp add: example_statics_def)
qed

subsection \<open>A file takes precedence over a url\<close>

text \<open>
  C9. When the launch configuration gives both a file and a url, the launch URL is the
  file path converted by \<^verbatim>\<open>pathToFileURL\<close>; the argument list is the one the same
  configuration without the url has, and it ends with the converted path. When an
  executable is found, \<^verbatim>\<open>launch\<close> returns the promise of \<^verbatim>\<open>doAttach\<close>, spawns the process
  with that argument list and attaches with the converted path.
\<close>

theorem file_takes_precedence:
  assumes "file' args = Some f" and "f \<noteq> []" and "url args = Some u"
  shows "launch_launchUrl env args = Some (pathToFileURL env f) \<and>
         launch_chromeArgs env args = launch_chromeArgs env (args\<lparr>url := None\<rparr>) \<and>
         (pathToFileURL env f \<noteq> [] \<longrightarrow> last (launch_chromeArgs env args) = pathToFileURL env f) \<and>
         (launch_chromePath env args = Some chromePath \<and> chromePath \<noteq> [] \<longrightarrow>
            fst (launch env args this) = Attaching \<and>
            filter is_Spawn (snd (snd (launch env args this))) =
              [Spawn chromePath (launch_chromeArgs env (args\<lparr>url := None\<rparr>))] \<and>
            last (snd (snd (launch env args this))) =
              DoAttach (launch_port args) (Some (pathToFileURL env f)) (address args))"
proof -
  from assms have u: "launch_launchUrl env args = Some (pathToFileURL env f)"
    by (simp add: launch_launchUrl_def)
  from assms have u': "launch_launchUrl env (args\<lparr>url := None\<rparr>) = Some (pathToFileURL env f)"
    by (simp add: launch_launchUrl_def)
  have same: "launch_chromeArgs env args = launch_chromeArgs env (args\<lparr>url := None\<rparr>)"
    by (simp add: launch_chromeArgs_parts u u' launch_port_def)
  have at_end: "pathToFileURL env f \<noteq> [] \<longrightarrow>
      last (launch_chromeArgs env args) = pathToFileURL env f"
    by (simp add: launch_chromeArgs_parts u)
  have run: "launch_chromePath env args = Some chromePath \<and> chromePath \<noteq> [] \<longrightarrow>
            fst (launch env args this) = Attaching \<and>
            filter is_Spawn (snd (snd (launch env args this))) =
              [Spawn chromePath (launch_chromeArgs env (args\<lparr>url := None\<rparr>))] \<and>
            last (snd (snd (launch env args this))) =
              DoAttach (launch_port args) (Some (pathToFileURL env f)) (address args)"
    using same u by (auto simp: launch_spawns)
  from u same at_end run show ?thesis by blast
qed

text \<open>The same at concrete values.\<close>

theorem file_takes_precedence_witness:
  "file' (example_args\<lparr>url := Some ''http://localhost:8080''\<rparr>) = Some ''/a/b.html'' \<and>
   ''/a/b.html'' \<noteq> [] \<and>
   url (example_args\<lparr>url := Some ''http://localhost:8080''\<rparr>) = Some ''http://localhost:8080'' \<and>
   pathToFileURL example_surroundings ''/a/b.html'' \<noteq> [] \<and>
   launch_chromePath example_surroundings
     (example_args\<lparr>url := Some ''http://localhost:8080''\<rparr>) = Some ''/usr/bin/chrome'' \<and>
   ''/usr/bin/chrome'' \<noteq> [] \<and>
   launch_launchUrl example_surroundings (example_args\<lparr>url := Some ''http://localhost:8080''\<rparr>) =
     Some ''file:///a/b.html'' \<and>
   last (launch_chromeArgs example_surroundings
     (example_args\<lparr>url := Some ''http://localhost:8080''\<rparr>)) = ''file:///a/b.html'' \<and>
   fst (launch example_surroundings (example_args\<lparr>url := Some ''http://localhost:8080''\<rparr>)
     \<lparr>chromeProc = None\<rparr>) = Attaching \<and>
   filter is_Spawn (snd (snd (launch example_surroundings
     (example_args\<lparr>url := Some ''http://localhost:8080''\<rparr>) \<lparr>chromeProc = None\<rparr>))) =
     [Spawn ''/usr/bin/chrome'' (launch_chromeArgs example_surroundings example_args)] \<and>
   last (snd (snd (launch example_surroundings
     (example_args\<lparr>url := Some ''http://localhost:8080''\<rparr>) \<lparr>chromeProc = None\<rparr>))) =
     DoAttach 9000 (Some ''file:///a/b.html'') None"
proof -
  let ?args = "example_args\<lparr>url := Some ''http://localhost:8080''\<rparr>"
  have f: "file' ?args = Some ''/a/b.html''"
    by (simp add: example_args_def)
  have ne: "''/a/b.html'' \<noteq> []"
    by simp
  have u: "url ?args = Some ''http://localhost:8080''"
    by simp
  have conv: "pathToFileURL example_surroundings ''/a/b.html'' = ''file:///a/b.html''"
    by (simp add: example_surroundings_def)
  have p: "launch_chromePath example_surroundings ?args = Some ''/usr/bin/chrome''"
    by (simp add: launch_chromePath_def example_surroundings_def example_args_def)
  have restored: "?args\<lparr>url := None\<rparr> = example_args"
    by (simp add: example_args_def)
  have prt: "launch_port ?args = 9000" "address ?args = None"
    by (simp_all add: launch_port_def example_args_def)
  note inst = file_takes_precedence
      [OF f ne u, of example_surroundings "''/usr/bin/chrome''" "\<lparr>chromeProc = None\<rparr>"]
  have url_is: "launch_launchUrl example_surroundings ?args = Some ''file:///a/b.html''"
    using inst [THEN conjunct1] by (simp add: conv)
  have at_end: "last (launch_chromeArgs example_surroundings ?args) = ''file:///a/b.html''"
    using inst [THEN conjunct2, THEN conjunct2, THEN conjunct1] by (simp add: conv)
  have run:
    "fst (launch example_surroundings ?args \<lparr>chromeProc = None\<rparr>) = Attaching \<and>
     filter is_Spawn (snd (snd (launch example_surroundings ?args \<lparr>chromeProc = None\<rparr>))) =
       [Spawn ''/usr/bin/chrome'' (launch_chromeArgs example_surroundings example_args)] \<and>
     last (snd (snd (launch example_surroundings ?args \<lparr>chromeProc = None\<rparr>))) =
       DoAttach 9000 (Some ''file:///a/b.html'') None"
    using inst [THEN conjunct2, THEN conjunct2, THEN conjunct2] p
    by (simp add: conv restored prt)
  show ?thesis
    using f u p url_is at_end run by (simp add: conv)
qed

subsection \<open>clearEverything sends no signal\<close>

text \<open>
  C10. \<^verbatim>\<open>clearEverything\<close> clears the handle and calls the base method only: it sends
  no signal. A \<^verbatim>\<open>disconnect\<close> after it sends no signal either and only calls the base
  teardown.
\<close>

theorem clearEverything_sends_no_signal:
  "clearEverything this = (this\<lparr>chromeProc := None\<rparr>, [SuperClearEverything]) \<and>
   filter is_Kill (snd (clearEverything this)) = [] \<and>
   chromeProc (fst (clearEverything this)) = None \<and>
   disconnect (fst (clearEverything this)) = (fst (clearEverything this), [SuperDisconnect]) \<and>
   filter is_Kill (snd (disconnect (fst (clearEverything this)))) = []"
  by (simp add: clearEverything_def disconnect_def)

text \<open>The same at concrete values.\<close>

theorem clearEverything_sends_no_signal_witness:
  "clearEverything \<lparr>chromeProc = Some 4711\<rparr> = (\<lparr>chromeProc = None\<rparr>, [SuperClearEverything]) \<and>
   disconnect (fst (clearEverything \<lparr>chromeProc = Some 4711\<rparr>)) =
     (\<lparr>chromeProc = None\<rparr>, [SuperDisconnect]) \<and>
   disconnect \<lparr>chromeProc = Some 4711\<rparr> =
     (\<lparr>chromeProc = None\<rparr>, [Kill 4711 ''SIGINT'', SuperDisconnect])"
  using clearEverything_sends_no_signal [of "\<lparr>chromeProc = Some 4711\<rparr>"]
  by (simp add: disconnect_def)

end
